theory Spec2Isabelle
  imports
    Complex_Main
    "HOL-Library.Char_ord"
    "HOL-Library.List_Lexorder"
    "HOL-Library.Product_Lexorder"
    "HOL-Library.Option_ord"
begin

section \<open>Tables\<close>

text \<open>
  The pipeline of \<^verbatim>\<open>main.py\<close> works on pandas data frames. A frame is modelled as the
  list of its rows, a row as a record of the columns the pipeline reads, and a cell that
  may be null (NaN) as an \<open>option\<close>. Fantasy points are float64 cells in the source; a
  cell is modelled by the rational number it holds. A sum of such cells is rounded by
  pandas, so the sum is not computed here: it is the parameter \<open>fsum\<close> of the model, of
  which nothing is assumed. Columns that no later step reads are left out of the records.
\<close>

type_synonym points = rat

type_synonym float_sum = "points list \<Rightarrow> points"

text \<open>
  The two ways the recomputation can fail: a download that fails, and the \<^verbatim>\<open>KeyError\<close>
  of selecting a column that a frame does not have.
\<close>

datatype error = FetchError | KeyError

text \<open>One row of the play-by-play data set.\<close>

record play =
  play_id :: "nat option"
  week :: "int option"
  posteam :: "string option"
  defteam :: "string option"
  play_type :: "string option"
  special_teams_play :: "int option"
  season_type :: "string option"
  epa :: "rat option"
  rusher_player_id :: "string option"
  rusher_player_name :: "string option"
  passer_player_id :: "string option"
  passer_player_name :: "string option"
  receiver_player_id :: "string option"
  receiver_player_name :: "string option"

text \<open>One row of a per-role table and of the merged table of \<^verbatim>\<open>get_players\<close>.\<close>

record participation =
  player :: "string option"
  player_id :: "string option"
  week :: "int option"
  posteam :: "string option"
  defteam :: "string option"
  plays :: nat

text \<open>One row of the player-week statistics.\<close>

record player_stat =
  player_id :: "string option"
  week :: "int option"
  fantasy_points :: "points option"
  fantasy_points_ppr :: "points option"

text \<open>One row of a roster data set.\<close>

record roster_entry =
  gsis_id :: "string option"
  season :: "int option"
  position :: "string option"

text \<open>One row of \<^verbatim>\<open>joined_data\<close>: a participation row with the columns of its statistic.\<close>

record joined =
  player :: "string option"
  player_id :: "string option"
  week :: "int option"
  posteam :: "string option"
  defteam :: "string option"
  plays :: nat
  fantasy_points :: "points option"
  fantasy_points_ppr :: "points option"

text \<open>
  One row of \<^verbatim>\<open>tri_data\<close> and of \<^verbatim>\<open>fixed_data\<close>. Every column is nullable here: the
  concatenation with the synthetic rows fills the columns they lack with nulls.
\<close>

record attributed =
  player :: "string option"
  player_id :: "string option"
  week :: "int option"
  posteam :: "string option"
  defteam :: "string option"
  plays :: "nat option"
  fantasy_points :: "points option"
  fantasy_points_ppr :: "points option"
  position :: "string option"

text \<open>One row of the final table, in the column order after \<^verbatim>\<open>reset_index\<close>.\<close>

record fpa_row =
  week :: "int option"
  defteam :: "string option"
  posteam :: "string option"
  position :: "string option"
  fantasy_points :: points
  fantasy_points_ppr :: points

section \<open>The pandas operations used\<close>

text \<open>
  \<^verbatim>\<open>groupby(keys, dropna=False)\<close> makes one group for every distinct key, a null being a
  key value like any other, and returns the groups sorted by key with nulls last. The
  sort key \<open>nulls_last\<close> puts every non-null cell before the null one.
\<close>

definition nulls_last :: "'a option \<Rightarrow> bool \<times> 'a option" where
  "nulls_last v = (v = None, v)"

definition group_keys :: "('k \<Rightarrow> 'o::linorder) \<Rightarrow> ('r \<Rightarrow> 'k) \<Rightarrow> 'r list \<Rightarrow> 'k list" where
  "group_keys ord key rows = sort_key ord (remdups (map key rows))"

definition group_rows :: "('r \<Rightarrow> 'k) \<Rightarrow> 'k \<Rightarrow> 'r list \<Rightarrow> 'r list" where
  "group_rows key k rows = filter (\<lambda>r. key r = k) rows"

text \<open>\<^verbatim>\<open>count()\<close> of a column: the number of non-null cells.\<close>

definition count_col :: "'a option list \<Rightarrow> nat" where
  "count_col vs = length (filter (\<lambda>v. v \<noteq> None) vs)"

text \<open>
  \<^verbatim>\<open>sum()\<close> of a float column of a group: nulls are skipped, the sum of no cell is 0, and
  otherwise it is the float64 sum \<open>fsum\<close> of the non-null cells in the order of the rows.
\<close>

definition nansum :: "float_sum \<Rightarrow> points option list \<Rightarrow> points" where
  "nansum fsum vs = (case List.map_filter id vs of [] \<Rightarrow> 0 | x # xs \<Rightarrow> fsum (x # xs))"

text \<open>\<^verbatim>\<open>isin\<close>: a null cell is in no list of strings.\<close>

definition isin :: "string option \<Rightarrow> string list \<Rightarrow> bool" where
  "isin v xs = (case v of None \<Rightarrow> False | Some s \<Rightarrow> s \<in> set xs)"

text \<open>A comparison of two cells: false as soon as one of them is null.\<close>

definition cell_eq :: "'a option \<Rightarrow> 'a option \<Rightarrow> bool" where
  "cell_eq a b = (case a of None \<Rightarrow> False | Some x \<Rightarrow> (case b of None \<Rightarrow> False | Some y \<Rightarrow> x = y))"

definition cell_gt :: "points option \<Rightarrow> points \<Rightarrow> bool" where
  "cell_gt a c = (case a of None \<Rightarrow> False | Some x \<Rightarrow> c < x)"

section \<open>Participation Extractor\<close>

type_synonym pkey = "string option \<times> string option \<times> int option \<times> string option \<times> string option"

definition pkey_ord ::
  "pkey \<Rightarrow> (bool \<times> string option) \<times> (bool \<times> string option) \<times> (bool \<times> int option)
     \<times> (bool \<times> string option) \<times> (bool \<times> string option)" where
  "pkey_ord k = (case k of (n, i, w, p, d) \<Rightarrow>
     (nulls_last n, nulls_last i, nulls_last w, nulls_last p, nulls_last d))"

definition pkey :: "participation \<Rightarrow> pkey" where
  "pkey r = (participation.player r, participation.player_id r, participation.week r,
     participation.posteam r, participation.defteam r)"

definition participation_row :: "pkey \<Rightarrow> nat \<Rightarrow> participation" where
  "participation_row k n = (case k of (nm, i, w, p, d) \<Rightarrow>
     \<lparr>participation.player = nm, participation.player_id = i, participation.week = w,
      participation.posteam = p, participation.defteam = d, participation.plays = n\<rparr>)"

text \<open>
  \<^verbatim>\<open>get_rushers\<close>, \<^verbatim>\<open>get_passers\<close> and \<^verbatim>\<open>get_receivers\<close> are the same text up to the two
  columns of the role. \<open>role_key\<close> is the list of group keys they pass to \<^verbatim>\<open>groupby\<close>, and
  \<open>role_table\<close> their common body: keep the plays whose role id is not null, group them,
  count the non-null \<^verbatim>\<open>play_id\<close> cells of each group, and rename the columns.
\<close>

definition role_key :: "(play \<Rightarrow> string option) \<Rightarrow> (play \<Rightarrow> string option) \<Rightarrow> play \<Rightarrow> pkey" where
  "role_key name_col id_col p = (name_col p, id_col p, play.week p, play.posteam p, play.defteam p)"

definition role_table ::
  "(play \<Rightarrow> string option) \<Rightarrow> (play \<Rightarrow> string option) \<Rightarrow> play list \<Rightarrow> participation list" where
  "role_table name_col id_col df =
     (let sel = filter (\<lambda>p. id_col p \<noteq> None) df
      in map (\<lambda>k. participation_row k
                (count_col (map play_id (group_rows (role_key name_col id_col) k sel))))
           (group_keys pkey_ord (role_key name_col id_col) sel))"

definition get_rushers :: "play list \<Rightarrow> participation list" where
  "get_rushers df = role_table rusher_player_name rusher_player_id df"

definition get_passers :: "play list \<Rightarrow> participation list" where
  "get_passers df = role_table passer_player_name passer_player_id df"

definition get_receivers :: "play list \<Rightarrow> participation list" where
  "get_receivers df = role_table receiver_player_name receiver_player_id df"

definition get_players :: "play list \<Rightarrow> participation list" where
  "get_players data =
     (let rushers = get_rushers data;
          passers = get_passers data;
          receivers = get_receivers data;
          players = rushers @ passers @ receivers
      in map (\<lambda>k. participation_row k
                (sum_list (map participation.plays (group_rows pkey k players))))
           (group_keys pkey_ord pkey players))"

section \<open>Attribution Joiner\<close>

text \<open>
  \<^verbatim>\<open>get_two_year_roster_data\<close> after its two fetches: \<^verbatim>\<open>groupby(['gsis_id'])\<close> has the
  default \<^verbatim>\<open>dropna=True\<close>, so a row with a null id is in no group and its transformed
  value is null; \<^verbatim>\<open>max\<close> skips null seasons; the comparison with \<^verbatim>\<open>==\<close> is false on a
  null.
\<close>

definition group_max :: "int option list \<Rightarrow> int option" where
  "group_max vs = (case List.map_filter id vs of [] \<Rightarrow> None | x # xs \<Rightarrow> Some (fold max xs x))"

definition transform_max :: "roster_entry list \<Rightarrow> roster_entry \<Rightarrow> int option" where
  "transform_max df e =
     (case gsis_id e of
        None \<Rightarrow> None
      | Some g \<Rightarrow> group_max (map season (group_rows gsis_id (Some g) df)))"

definition max_season_rows :: "roster_entry list \<Rightarrow> roster_entry list \<Rightarrow> roster_entry list" where
  "max_season_rows roster_data roster_data_prev_year =
     (let two_year_roster_data = roster_data @ roster_data_prev_year
      in filter (\<lambda>e. cell_eq (transform_max two_year_roster_data e) (season e))
           two_year_roster_data)"

text \<open>
  The inner merge on \<^verbatim>\<open>(player_id, week)\<close>: one row for every pair of a participation
  row and a statistic with equal keys, in the order of the left rows. pandas matches a
  null key with a null key, as the equality of cells does here.
\<close>

definition joined_row :: "participation \<Rightarrow> player_stat \<Rightarrow> joined" where
  "joined_row p s =
     \<lparr>joined.player = participation.player p, joined.player_id = participation.player_id p,
      joined.week = participation.week p, joined.posteam = participation.posteam p,
      joined.defteam = participation.defteam p, joined.plays = participation.plays p,
      joined.fantasy_points = player_stat.fantasy_points s,
      joined.fantasy_points_ppr = player_stat.fantasy_points_ppr s\<rparr>"

definition stat_matches :: "participation \<Rightarrow> player_stat \<Rightarrow> bool" where
  "stat_matches p s \<longleftrightarrow>
     player_stat.player_id s = participation.player_id p \<and> player_stat.week s = participation.week p"

definition joined_data :: "participation list \<Rightarrow> player_stat list \<Rightarrow> joined list" where
  "joined_data players player_stats_data =
     concat (map (\<lambda>p. map (joined_row p) (filter (stat_matches p) player_stats_data)) players)"

text \<open>
  The left merge on \<^verbatim>\<open>player_id = gsis_id\<close>: a joined row gives one row for every roster
  entry of its player, and one row with a null position when there is none.
\<close>

definition attributed_row :: "joined \<Rightarrow> string option \<Rightarrow> attributed" where
  "attributed_row j pos =
     \<lparr>attributed.player = joined.player j, attributed.player_id = joined.player_id j,
      attributed.week = joined.week j, attributed.posteam = joined.posteam j,
      attributed.defteam = joined.defteam j, attributed.plays = Some (joined.plays j),
      attributed.fantasy_points = joined.fantasy_points j,
      attributed.fantasy_points_ppr = joined.fantasy_points_ppr j,
      attributed.position = pos\<rparr>"

definition roster_matches :: "joined \<Rightarrow> roster_entry \<Rightarrow> bool" where
  "roster_matches j e \<longleftrightarrow> gsis_id e = joined.player_id j"

definition tri_data :: "joined list \<Rightarrow> roster_entry list \<Rightarrow> attributed list" where
  "tri_data joined_rows two_year_roster_data =
     concat (map (\<lambda>j. case filter (roster_matches j) two_year_roster_data of
                         [] \<Rightarrow> [attributed_row j None]
                       | es \<Rightarrow> map (\<lambda>e. attributed_row j (roster_entry.position e)) es)
                  joined_rows)"

section \<open>Position Aggregator\<close>

definition unconventional_ball_carriers :: "attributed list \<Rightarrow> attributed list" where
  "unconventional_ball_carriers tri =
     filter (\<lambda>r. \<not> isin (attributed.position r) [''QB'', ''RB'', ''FB'', ''TE'', ''WR'']) tri"

type_synonym gkey = "int option \<times> string option \<times> string option"

definition gkey_ord ::
  "gkey \<Rightarrow> (bool \<times> int option) \<times> (bool \<times> string option) \<times> (bool \<times> string option)" where
  "gkey_ord k = (case k of (w, p, d) \<Rightarrow> (nulls_last w, nulls_last p, nulls_last d))"

definition gkey :: "attributed \<Rightarrow> gkey" where
  "gkey r = (attributed.week r, attributed.posteam r, attributed.defteam r)"

text \<open>
  A row of \<^verbatim>\<open>non_skill_pos_data\<close> has the three key columns, the summed
  \<^verbatim>\<open>fantasy_points\<close> and the position set to \<^verbatim>\<open>'non_skill'\<close>; in the concatenation every
  other column of it is null.
\<close>

definition non_skill_row :: "gkey \<Rightarrow> points \<Rightarrow> attributed" where
  "non_skill_row k s = (case k of (w, p, d) \<Rightarrow>
     \<lparr>attributed.player = None, attributed.player_id = None, attributed.week = w,
      attributed.posteam = p, attributed.defteam = d, attributed.plays = None,
      attributed.fantasy_points = Some s, attributed.fantasy_points_ppr = None,
      attributed.position = Some ''non_skill''\<rparr>)"

definition non_skill_pos_data :: "float_sum \<Rightarrow> attributed list \<Rightarrow> attributed list" where
  "non_skill_pos_data fsum tri =
     (let ubc = unconventional_ball_carriers tri;
          summed = map (\<lambda>k. non_skill_row k
                        (nansum fsum (map attributed.fantasy_points (group_rows gkey k ubc))))
                   (group_keys gkey_ord gkey ubc)
      in filter (\<lambda>r. cell_gt (attributed.fantasy_points r) 6) summed)"

text \<open>
  Line 178, \<^verbatim>\<open>fixed_data.loc['position'] = fixed_data['position'].replace('FB', 'RB')\<close>,
  assigns to the row labelled \<^verbatim>\<open>'position'\<close>, not to the column. After
  \<^verbatim>\<open>ignore_index=True\<close> the row labels are 0, 1, ..., so there is no such row and the frame
  grows by one. The assigned series is labelled by those integers and is aligned with the
  column names, none of which it has: the new row is null in every column. The position
  column of the other rows is left as it was.
\<close>

definition null_row :: attributed where
  "null_row =
     \<lparr>attributed.player = None, attributed.player_id = None, attributed.week = None,
      attributed.posteam = None, attributed.defteam = None, attributed.plays = None,
      attributed.fantasy_points = None, attributed.fantasy_points_ppr = None,
      attributed.position = None\<rparr>"

definition loc_position_assign :: "attributed list \<Rightarrow> attributed list" where
  "loc_position_assign df = df @ [null_row]"

definition fixed_data :: "float_sum \<Rightarrow> attributed list \<Rightarrow> attributed list" where
  "fixed_data fsum tri =
     filter (\<lambda>r. isin (attributed.position r) [''QB'', ''RB'', ''WR'', ''TE'', ''non_skill''])
       (loc_position_assign (tri @ non_skill_pos_data fsum tri))"

type_synonym fkey = "int option \<times> string option \<times> string option \<times> string option"

definition fkey_ord ::
  "fkey \<Rightarrow> (bool \<times> int option) \<times> (bool \<times> string option) \<times> (bool \<times> string option)
     \<times> (bool \<times> string option)" where
  "fkey_ord k = (case k of (w, d, p, pos) \<Rightarrow>
     (nulls_last w, nulls_last d, nulls_last p, nulls_last pos))"

definition fkey :: "attributed \<Rightarrow> fkey" where
  "fkey r = (attributed.week r, attributed.defteam r, attributed.posteam r, attributed.position r)"

definition fpa_row_of :: "fkey \<Rightarrow> points \<Rightarrow> points \<Rightarrow> fpa_row" where
  "fpa_row_of k s sp = (case k of (w, d, p, pos) \<Rightarrow>
     \<lparr>fpa_row.week = w, fpa_row.defteam = d, fpa_row.posteam = p, fpa_row.position = pos,
      fpa_row.fantasy_points = s, fpa_row.fantasy_points_ppr = sp\<rparr>)"

text \<open>Lines 181 to 183 on a frame whose two fantasy-point columns are numeric.\<close>

definition summed_by_position :: "float_sum \<Rightarrow> attributed list \<Rightarrow> fpa_row list" where
  "summed_by_position fsum tri =
     (let fixed = fixed_data fsum tri
      in map (\<lambda>k. fpa_row_of k
                (nansum fsum (map attributed.fantasy_points (group_rows fkey k fixed)))
                (nansum fsum (map attributed.fantasy_points_ppr (group_rows fkey k fixed))))
           (group_keys fkey_ord fkey fixed))"

text \<open>
  When the concatenated frame of line 176 has no row (the joins matched nothing), the
  assignment of line 178 does not append to the frame but replaces it by the single
  all-null row, and every column of that row has dtype \<^verbatim>\<open>object\<close>. The filter of line 179
  leaves no row, the group sum of line 181 drops the columns that are not numeric, which
  is all of them, and the selection of \<^verbatim>\<open>fantasy_points\<close> and \<^verbatim>\<open>fantasy_points_ppr\<close> on
  lines 181 and 182 raises \<^verbatim>\<open>KeyError\<close> (pandas 1.x, where a group sum drops non-numeric
  columns). With at least one row the columns keep their numeric dtype.
\<close>

definition fpa_by_position :: "float_sum \<Rightarrow> attributed list \<Rightarrow> error + fpa_row list" where
  "fpa_by_position fsum tri =
     (if tri @ non_skill_pos_data fsum tri = [] then Inl KeyError
      else Inr (summed_by_position fsum tri))"

section \<open>Fetching and the cache\<close>

text \<open>
  What the program reads and writes outside itself: the files under \<^verbatim>\<open>cache/\<close>, each
  present or absent, and the remote archive, where \<open>None\<close> stands for a download that
  fails. A failed download raises, and nothing in the program catches it.
\<close>

record world =
  fpa_cache :: "int \<Rightarrow> fpa_row list option"
  pbp_cache :: "int \<Rightarrow> play list option"
  pbp_remote :: "int \<Rightarrow> play list option"
  roster_cache :: "int \<Rightarrow> roster_entry list option"
  roster_remote :: "int \<Rightarrow> roster_entry list option"
  stats_cache :: "int \<Rightarrow> player_stat list option"
  stats_remote :: "int \<Rightarrow> player_stat list option"

definition pbp_filter :: "play \<Rightarrow> bool" where
  "pbp_filter p \<longleftrightarrow>
     special_teams_play p = Some 0 \<and> epa p \<noteq> None \<and> season_type p = Some ''REG''
       \<and> isin (play_type p) [''pass'', ''run'']"

definition get_pbp_data :: "int \<Rightarrow> world \<Rightarrow> error + play list" where
  "get_pbp_data year w =
     (case pbp_cache w year of
        Some data \<Rightarrow> Inr data
      | None \<Rightarrow> (case pbp_remote w year of
                   None \<Rightarrow> Inl FetchError
                 | Some data \<Rightarrow> Inr (filter pbp_filter data)))"

definition get_roster_data :: "int \<Rightarrow> world \<Rightarrow> error + roster_entry list" where
  "get_roster_data year w =
     (case roster_cache w year of
        Some data \<Rightarrow> Inr data
      | None \<Rightarrow> (case roster_remote w year of
                   None \<Rightarrow> Inl FetchError
                 | Some data \<Rightarrow> Inr data))"

definition get_player_stats_data :: "int \<Rightarrow> world \<Rightarrow> error + player_stat list" where
  "get_player_stats_data year w =
     (case stats_cache w year of
        Some data \<Rightarrow> Inr data
      | None \<Rightarrow> (case stats_remote w year of
                   None \<Rightarrow> Inl FetchError
                 | Some data \<Rightarrow> Inr data))"

definition get_two_year_roster_data :: "int \<Rightarrow> world \<Rightarrow> error + roster_entry list" where
  "get_two_year_roster_data year w =
     (case get_roster_data year w of
        Inl e \<Rightarrow> Inl e
      | Inr roster_data \<Rightarrow>
          (case get_roster_data (year - 1) w of
             Inl e \<Rightarrow> Inl e
           | Inr roster_data_prev_year \<Rightarrow>
               Inr (max_season_rows roster_data roster_data_prev_year)))"

text \<open>
  \<^verbatim>\<open>get_fpa_by_position\<close> returns its result, or the error that was raised, and the world
  it leaves: the only write is \<^verbatim>\<open>to_pickle\<close> on the last line of the recomputation, which
  an error raised before it skips.
\<close>

definition get_fpa_by_position ::
  "float_sum \<Rightarrow> int \<Rightarrow> world \<Rightarrow> (error + fpa_row list) \<times> world" where
  "get_fpa_by_position fsum year w =
     (case fpa_cache w year of
        Some cached \<Rightarrow> (Inr cached, w)
      | None \<Rightarrow>
          (case get_pbp_data year w of
             Inl e \<Rightarrow> (Inl e, w)
           | Inr data \<Rightarrow>
               (let players = get_players data
                in case get_player_stats_data year w of
                     Inl e \<Rightarrow> (Inl e, w)
                   | Inr player_stats_data \<Rightarrow>
                       (case get_two_year_roster_data year w of
                          Inl e \<Rightarrow> (Inl e, w)
                        | Inr two_year_roster_data \<Rightarrow>
                            (case fpa_by_position fsum
                                    (tri_data (joined_data players player_stats_data)
                                       two_year_roster_data) of
                               Inl e \<Rightarrow> (Inl e, w)
                             | Inr table \<Rightarrow>
                                 (Inr table,
                                  w\<lparr>fpa_cache := (fpa_cache w)(year \<mapsto> table)\<rparr>))))))"

section \<open>Example inputs\<close>

text \<open>
  The fantasy points of the examples are small whole numbers, which float64 adds without
  rounding, so that the float64 sum is the exact sum \<open>sum_list\<close> there.
\<close>

definition example_play :: play where
  "example_play =
     \<lparr>play_id = Some 1, play.week = Some 3, play.posteam = Some ''DAL'',
      play.defteam = Some ''PHI'', play_type = Some ''run'', special_teams_play = Some 0,
      season_type = Some ''REG'', epa = Some 0,
      rusher_player_id = Some ''00-1'', rusher_player_name = Some ''A.Player'',
      passer_player_id = None, passer_player_name = None,
      receiver_player_id = None, receiver_player_name = None\<rparr>"

definition example_stat :: "points \<Rightarrow> player_stat" where
  "example_stat pts =
     \<lparr>player_stat.player_id = Some ''00-1'', player_stat.week = Some 3,
      player_stat.fantasy_points = Some pts, player_stat.fantasy_points_ppr = Some 10\<rparr>"

definition example_roster :: "string \<Rightarrow> roster_entry list" where
  "example_roster pos =
     [\<lparr>gsis_id = Some ''00-1'', season = Some 2021, roster_entry.position = Some pos\<rparr>]"

definition example_roster_prev :: "roster_entry list" where
  "example_roster_prev =
     [\<lparr>gsis_id = Some ''00-1'', season = Some 2020, roster_entry.position = Some ''QB''\<rparr>,
      \<lparr>gsis_id = Some ''00-2'', season = Some 2020, roster_entry.position = Some ''WR''\<rparr>]"

definition example_world :: "string \<Rightarrow> world" where
  "example_world pos =
     \<lparr>fpa_cache = (\<lambda>y. None),
      pbp_cache = (\<lambda>y. None),
      pbp_remote = (\<lambda>y. if y = 2021 then Some [example_play] else None),
      roster_cache = (\<lambda>y. None),
      roster_remote = (\<lambda>y. if y = 2021 then Some (example_roster pos)
                           else if y = 2020 then Some example_roster_prev else None),
      stats_cache = (\<lambda>y. None),
      stats_remote = (\<lambda>y. if y = 2021 then Some [example_stat 9] else None)\<rparr>"

definition example_non_skill_row :: fpa_row where
  "example_non_skill_row =
     \<lparr>fpa_row.week = Some 3, fpa_row.defteam = Some ''PHI'', fpa_row.posteam = Some ''DAL'',
      fpa_row.position = Some ''non_skill'', fpa_row.fantasy_points = 9,
      fpa_row.fantasy_points_ppr = 0\<rparr>"

definition example_game :: "play list" where
  "example_game =
     map (\<lambda>i. example_play\<lparr>play_id := Some i\<rparr>) [1..<6]
     @ map (\<lambda>i. example_play\<lparr>play_id := Some i, play_type := Some ''pass'',
                   rusher_player_id := None, rusher_player_name := None,
                   passer_player_id := Some ''00-3'', passer_player_name := Some ''B.Passer'',
                   receiver_player_id := Some ''00-1'',
                   receiver_player_name := Some ''A.Player''\<rparr>) [6..<9]"

definition example_participation :: "nat \<Rightarrow> participation" where
  "example_participation n =
     \<lparr>participation.player = Some ''A.Player'', participation.player_id = Some ''00-1'',
      participation.week = Some 3, participation.posteam = Some ''DAL'',
      participation.defteam = Some ''PHI'', participation.plays = n\<rparr>"


definition carrier_play :: "nat \<Rightarrow> string \<Rightarrow> string \<Rightarrow> play" where
  "carrier_play n pid name =
     example_play\<lparr>play_id := Some n, rusher_player_id := Some pid,
       rusher_player_name := Some name\<rparr>"

definition carrier_stat :: "string \<Rightarrow> points \<Rightarrow> points \<Rightarrow> player_stat" where
  "carrier_stat pid pts ppr =
     \<lparr>player_stat.player_id = Some pid, player_stat.week = Some 3,
      player_stat.fantasy_points = Some pts, player_stat.fantasy_points_ppr = Some ppr\<rparr>"

definition two_carrier_plays :: "play list" where
  "two_carrier_plays =
     [carrier_play 1 ''00-1'' ''A.Player'', carrier_play 2 ''00-4'' ''C.Lineman'',
      carrier_play 3 ''00-5'' ''D.Back'']"

definition two_carrier_stats :: "points \<Rightarrow> player_stat list" where
  "two_carrier_stats pts =
     [carrier_stat ''00-1'' 4 4, carrier_stat ''00-4'' pts pts, carrier_stat ''00-5'' 20 23]"

definition two_carrier_roster :: "roster_entry list" where
  "two_carrier_roster =
     [\<lparr>gsis_id = Some ''00-1'', season = Some 2021, roster_entry.position = Some ''K''\<rparr>,
      \<lparr>gsis_id = Some ''00-5'', season = Some 2021, roster_entry.position = Some ''RB''\<rparr>]"

definition two_carrier_world :: "points \<Rightarrow> world" where
  "two_carrier_world pts =
     \<lparr>fpa_cache = (\<lambda>y. None),
      pbp_cache = (\<lambda>y. None),
      pbp_remote = (\<lambda>y. if y = 2021 then Some two_carrier_plays else None),
      roster_cache = (\<lambda>y. None),
      roster_remote = (\<lambda>y. if y = 2021 then Some two_carrier_roster
                           else if y = 2020 then Some [] else None),
      stats_cache = (\<lambda>y. None),
      stats_remote = (\<lambda>y. if y = 2021 then Some (two_carrier_stats pts) else None)\<rparr>"

definition two_carrier_tri :: "points \<Rightarrow> attributed list" where
  "two_carrier_tri pts =
     tri_data (joined_data (get_players two_carrier_plays) (two_carrier_stats pts))
       two_carrier_roster"

definition two_carrier_table :: "points option \<Rightarrow> fpa_row list" where
  "two_carrier_table non_skill_points =
     \<lparr>fpa_row.week = Some 3, fpa_row.defteam = Some ''PHI'', fpa_row.posteam = Some ''DAL'',
      fpa_row.position = Some ''RB'', fpa_row.fantasy_points = 20,
      fpa_row.fantasy_points_ppr = 23\<rparr>
     # (case non_skill_points of
          None \<Rightarrow> []
        | Some s \<Rightarrow>
            [\<lparr>fpa_row.week = Some 3, fpa_row.defteam = Some ''PHI'',
              fpa_row.posteam = Some ''DAL'', fpa_row.position = Some ''non_skill'',
              fpa_row.fantasy_points = s, fpa_row.fantasy_points_ppr = 0\<rparr>])"

section \<open>Auxiliary facts\<close>

lemma set_group_keys: "set (group_keys ord key rows) = key ` set rows"
  by (simp add: group_keys_def)

lemma distinct_group_keys: "distinct (group_keys ord key rows)"
  by (simp add: group_keys_def)

lemma set_group_rows: "set (group_rows key k rows) = {r \<in> set rows. key r = k}"
  by (simp add: group_rows_def)

lemma nansum_all_null: "\<forall>v\<in>set vs. v = None \<Longrightarrow> nansum fsum vs = 0"
proof -
  assume "\<forall>v\<in>set vs. v = None"
  then have "List.map_filter id vs = []"
    by (induction vs) (simp_all add: map_filter_simps)
  then show ?thesis
    by (simp add: nansum_def)
qed

lemma nansum_Nil: "nansum fsum [] = 0"
  by (simp add: nansum_def map_filter_simps)

lemma nansum_map:
  "nansum fsum (map f rows) =
     (if List.map_filter f rows = [] then 0 else fsum (List.map_filter f rows))"
proof -
  have "List.map_filter id (map f rows) = List.map_filter f rows"
    by (induction rows) (simp_all add: map_filter_simps split: option.splits)
  then show ?thesis
    by (cases "List.map_filter f rows") (simp_all add: nansum_def)
qed

lemma nansum_exceeds_6:
  "6 < nansum fsum (map f rows) \<longleftrightarrow>
     List.map_filter f rows \<noteq> [] \<and> 6 < fsum (List.map_filter f rows)"
  by (simp add: nansum_map)

lemma isin_iff: "isin v xs \<longleftrightarrow> (\<exists>s\<in>set xs. v = Some s)"
  by (cases v) (auto simp: isin_def)

lemma in_summed_by_position:
  "row \<in> set (summed_by_position fsum tri) \<longleftrightarrow>
     (\<exists>r\<in>set (fixed_data fsum tri). row = fpa_row_of (fkey r)
        (nansum fsum (map attributed.fantasy_points (group_rows fkey (fkey r) (fixed_data fsum tri))))
        (nansum fsum (map attributed.fantasy_points_ppr (group_rows fkey (fkey r) (fixed_data fsum tri)))))"
  by (auto simp: summed_by_position_def Let_def set_group_keys)

lemma in_fixed_data:
  "r \<in> set (fixed_data fsum tri) \<longleftrightarrow>
     (r \<in> set tri \<or> r \<in> set (non_skill_pos_data fsum tri))
       \<and> isin (attributed.position r) [''QB'', ''RB'', ''WR'', ''TE'', ''non_skill'']"
  by (auto simp: fixed_data_def loc_position_assign_def null_row_def isin_def)

lemma non_skill_row_points: "attributed.fantasy_points (non_skill_row k s) = Some s"
  by (cases k) (simp add: non_skill_row_def)

lemma non_skill_row_ppr: "attributed.fantasy_points_ppr (non_skill_row k s) = None"
  by (cases k) (simp add: non_skill_row_def)

lemma non_skill_row_position: "attributed.position (non_skill_row k s) = Some ''non_skill''"
  by (cases k) (simp add: non_skill_row_def)

lemma non_skill_row_gkey: "gkey (non_skill_row k s) = k"
  by (cases k) (simp add: non_skill_row_def gkey_def)

lemma in_non_skill_pos_data:
  "r \<in> set (non_skill_pos_data fsum tri) \<longleftrightarrow>
     (\<exists>u\<in>set (unconventional_ball_carriers tri).
        r = non_skill_row (gkey u)
              (nansum fsum (map attributed.fantasy_points
                 (group_rows gkey (gkey u) (unconventional_ball_carriers tri))))
        \<and> 6 < nansum fsum (map attributed.fantasy_points
                 (group_rows gkey (gkey u) (unconventional_ball_carriers tri))))"
  by (auto simp: non_skill_pos_data_def Let_def set_group_keys cell_gt_def non_skill_row_points)

lemma fpa_row_of_position: "fpa_row.position (fpa_row_of (fkey r) s sp) = attributed.position r"
  by (simp add: fpa_row_of_def fkey_def)

lemma fpa_row_of_ppr: "fpa_row.fantasy_points_ppr (fpa_row_of k s sp) = sp"
  by (cases k) (simp add: fpa_row_of_def)

lemma summed_by_position_positions:
  assumes "row \<in> set (summed_by_position fsum tri)"
  shows "isin (fpa_row.position row) [''QB'', ''RB'', ''WR'', ''TE'', ''non_skill'']"
  using assms by (auto simp: in_summed_by_position fpa_row_of_position in_fixed_data)

lemma non_skill_ppr_zero:
  assumes clean: "\<forall>r\<in>set tri. attributed.position r \<noteq> Some ''non_skill''"
    and row: "row \<in> set (summed_by_position fsum tri)"
    and pos: "fpa_row.position row = Some ''non_skill''"
  shows "fpa_row.fantasy_points_ppr row = 0"
proof -
  from row obtain r where r: "r \<in> set (fixed_data fsum tri)"
    and eq: "row = fpa_row_of (fkey r)
        (nansum fsum (map attributed.fantasy_points (group_rows fkey (fkey r) (fixed_data fsum tri))))
        (nansum fsum (map attributed.fantasy_points_ppr (group_rows fkey (fkey r) (fixed_data fsum tri))))"
    by (auto simp: in_summed_by_position)
  from eq pos have rpos: "attributed.position r = Some ''non_skill''"
    by (simp add: fpa_row_of_position)
  have "attributed.fantasy_points_ppr r' = None"
    if "r' \<in> set (group_rows fkey (fkey r) (fixed_data fsum tri))" for r'
  proof -
    from that have mem: "r' \<in> set (fixed_data fsum tri)" and k: "fkey r' = fkey r"
      by (simp_all add: set_group_rows)
    from k rpos have "attributed.position r' = Some ''non_skill''"
      by (simp add: fkey_def)
    with clean mem have "r' \<in> set (non_skill_pos_data fsum tri)"
      by (auto simp: in_fixed_data)
    then show ?thesis
      by (auto simp: in_non_skill_pos_data non_skill_row_ppr)
  qed
  then have "nansum fsum (map attributed.fantasy_points_ppr (group_rows fkey (fkey r) (fixed_data fsum tri))) = 0"
    by (intro nansum_all_null) auto
  with eq show ?thesis
    by (simp add: fpa_row_of_ppr)
qed

lemma group_rows_ubc:
  "group_rows gkey (w, p, d) (unconventional_ball_carriers tri) =
     filter (\<lambda>r. attributed.position r \<notin> {Some ''QB'', Some ''RB'', Some ''FB'', Some ''TE'', Some ''WR''}
                \<and> attributed.week r = w \<and> attributed.posteam r = p \<and> attributed.defteam r = d) tri"
  by (auto simp: group_rows_def unconventional_ball_carriers_def gkey_def isin_iff intro!: filter_cong)

lemma non_skill_key_iff:
  "(\<exists>r\<in>set (non_skill_pos_data fsum tri). gkey r = k) \<longleftrightarrow>
     6 < nansum fsum (map attributed.fantasy_points (group_rows gkey k (unconventional_ball_carriers tri)))"
    (is "?L \<longleftrightarrow> ?R")
proof
  assume ?L
  then show ?R
    by (auto simp: in_non_skill_pos_data non_skill_row_gkey)
next
  assume R: ?R
  have "group_rows gkey k (unconventional_ball_carriers tri) \<noteq> []"
  proof
    assume "group_rows gkey k (unconventional_ball_carriers tri) = []"
    with R show False by (simp add: nansum_Nil)
  qed
  then obtain u where "u \<in> set (group_rows gkey k (unconventional_ball_carriers tri))"
    by (cases "group_rows gkey k (unconventional_ball_carriers tri)") auto
  then have u: "u \<in> set (unconventional_ball_carriers tri)" and k: "gkey u = k"
    by (simp_all add: set_group_rows)
  with R have "non_skill_row k (nansum fsum (map attributed.fantasy_points
        (group_rows gkey k (unconventional_ball_carriers tri)))) \<in> set (non_skill_pos_data fsum tri)"
    by (auto simp: in_non_skill_pos_data)
  then show ?L
    by (rule bexI [rotated]) (simp add: non_skill_row_gkey)
qed

lemma non_skill_output_iff:
  assumes clean: "\<forall>r\<in>set tri. attributed.position r \<noteq> Some ''non_skill''"
  shows "(\<exists>row\<in>set (summed_by_position fsum tri). fpa_row.position row = Some ''non_skill''
            \<and> fpa_row.week row = w \<and> fpa_row.posteam row = p \<and> fpa_row.defteam row = d)
         \<longleftrightarrow> (\<exists>r\<in>set (non_skill_pos_data fsum tri). gkey r = (w, p, d))"
    (is "?L \<longleftrightarrow> ?R")
proof
  assume ?L
  then obtain r where r: "r \<in> set (fixed_data fsum tri)"
    and k: "fkey r = (w, d, p, Some ''non_skill'')"
    by (auto simp: in_summed_by_position fpa_row_of_def fkey_def)
  from k have "attributed.position r = Some ''non_skill''" and g: "gkey r = (w, p, d)"
    by (simp_all add: fkey_def gkey_def)
  with clean r have "r \<in> set (non_skill_pos_data fsum tri)"
    by (auto simp: in_fixed_data)
  with g show ?R by blast
next
  assume ?R
  then obtain r where r: "r \<in> set (non_skill_pos_data fsum tri)" and g: "gkey r = (w, p, d)"
    by blast
  from r have pos: "attributed.position r = Some ''non_skill''"
    by (auto simp: in_non_skill_pos_data non_skill_row_position)
  with r have fx: "r \<in> set (fixed_data fsum tri)"
    by (simp add: in_fixed_data isin_iff)
  let ?row = "fpa_row_of (fkey r)
        (nansum fsum (map attributed.fantasy_points (group_rows fkey (fkey r) (fixed_data fsum tri))))
        (nansum fsum (map attributed.fantasy_points_ppr (group_rows fkey (fkey r) (fixed_data fsum tri))))"
  from fx have "?row \<in> set (summed_by_position fsum tri)"
    by (auto simp: in_summed_by_position)
  moreover from pos g have "fpa_row.position ?row = Some ''non_skill''
      \<and> fpa_row.week ?row = w \<and> fpa_row.posteam ?row = p \<and> fpa_row.defteam ?row = d"
    by (simp add: fpa_row_of_def fkey_def gkey_def)
  ultimately show ?L by blast
qed

lemma non_skill_row_iff_group_sum:
  assumes "\<forall>r\<in>set tri. attributed.position r \<noteq> Some ''non_skill''"
  shows "(\<exists>row\<in>set (summed_by_position fsum tri). fpa_row.position row = Some ''non_skill''
            \<and> fpa_row.week row = w \<and> fpa_row.posteam row = p \<and> fpa_row.defteam row = d)
         \<longleftrightarrow> 6 < nansum fsum (map attributed.fantasy_points
               (filter (\<lambda>r. attributed.position r \<notin>
                               {Some ''QB'', Some ''RB'', Some ''FB'', Some ''TE'', Some ''WR''}
                             \<and> attributed.week r = w \<and> attributed.posteam r = p
                             \<and> attributed.defteam r = d) tri))"
  using non_skill_output_iff [OF assms, of fsum w p d] non_skill_key_iff [of fsum tri "(w, p, d)"]
  by (simp only: group_rows_ubc)

lemma pkey_participation_row: "pkey (participation_row k n) = k"
  by (cases k) (simp add: pkey_def participation_row_def)

lemma plays_participation_row: "participation.plays (participation_row k n) = n"
  by (cases k) (simp add: participation_row_def)

lemma filter_eq_distinct:
  "distinct ks \<Longrightarrow> filter (\<lambda>k'. k' = k) ks = (if k \<in> set ks then [k] else [])"
  by (induction ks) auto

lemma group_rows_keyed_map:
  assumes "distinct ks" and "\<And>k'. key (f k') = k'"
  shows "group_rows key k (map f ks) = (if k \<in> set ks then [f k] else [])"
proof -
  have "group_rows key k (map f ks) = map f (filter (\<lambda>k'. k' = k) ks)"
    by (simp add: group_rows_def filter_map comp_def assms(2))
  with assms(1) show ?thesis
    by (simp add: filter_eq_distinct)
qed

lemma group_rows_append:
  "group_rows key k (xs @ ys) = group_rows key k xs @ group_rows key k ys"
  by (simp add: group_rows_def)

lemma group_rows_empty: "k \<notin> key ` set rows \<Longrightarrow> group_rows key k rows = []"
  by (auto simp: group_rows_def filter_empty_conv)

lemma group_rows_filter:
  "group_rows key k (filter P rows) = filter (\<lambda>r. P r \<and> key r = k) rows"
  by (simp add: group_rows_def conj_commute)

lemma map_pkey_role_table:
  "map pkey (role_table name_col id_col df) =
     group_keys pkey_ord (role_key name_col id_col) (filter (\<lambda>p. id_col p \<noteq> None) df)"
  by (simp add: role_table_def Let_def comp_def pkey_participation_row)

lemma role_table_group_plays:
  "sum_list (map participation.plays (group_rows pkey k (role_table name_col id_col df))) =
     count_col (map play_id
       (filter (\<lambda>p. id_col p \<noteq> None \<and> role_key name_col id_col p = k) df))"
proof -
  let ?sel = "filter (\<lambda>p. id_col p \<noteq> None) df"
  let ?ks = "group_keys pkey_ord (role_key name_col id_col) ?sel"
  let ?f = "\<lambda>k. participation_row k
              (count_col (map play_id (group_rows (role_key name_col id_col) k ?sel)))"
  have tbl: "role_table name_col id_col df = map ?f ?ks"
    by (simp add: role_table_def Let_def)
  have grp: "group_rows pkey k (map ?f ?ks) = (if k \<in> set ?ks then [?f k] else [])"
    by (rule group_rows_keyed_map) (simp_all add: distinct_group_keys pkey_participation_row)
  show ?thesis
  proof (cases "k \<in> set ?ks")
    case True
    with tbl grp show ?thesis
      by (simp add: plays_participation_row group_rows_filter)
  next
    case False
    then have "group_rows (role_key name_col id_col) k ?sel = []"
      by (intro group_rows_empty) (simp add: set_group_keys)
    with False tbl grp show ?thesis
      by (simp add: group_rows_filter count_col_def)
  qed
qed

lemma count_col_all_present:
  "\<forall>p\<in>set ps. play_id p \<noteq> None \<Longrightarrow> count_col (map play_id ps) = length ps"
  by (induction ps) (simp_all add: count_col_def)

lemma get_players_alt:
  "get_players data =
     map (\<lambda>k. participation_row k
            (sum_list (map participation.plays (group_rows pkey k (get_rushers data @ get_passers data @ get_receivers data)))))
       (group_keys pkey_ord pkey (get_rushers data @ get_passers data @ get_receivers data))"
  by (simp add: get_players_def Let_def)

lemma map_pkey_get_players:
  "map pkey (get_players data) = group_keys pkey_ord pkey (get_rushers data @ get_passers data @ get_receivers data)"
  by (simp add: get_players_alt comp_def pkey_participation_row)

lemma set_pkey_role_table:
  "pkey ` set (role_table name_col id_col df) =
     role_key name_col id_col ` {p \<in> set df. id_col p \<noteq> None}"
proof -
  have "pkey ` set (role_table name_col id_col df) = set (map pkey (role_table name_col id_col df))"
    by simp
  also have "\<dots> = role_key name_col id_col ` {p \<in> set df. id_col p \<noteq> None}"
    by (simp only: map_pkey_role_table set_group_keys set_filter)
  finally show ?thesis .
qed

lemma set_pkey_get_players:
  "pkey ` set (get_players data) =
     role_key rusher_player_name rusher_player_id ` {p \<in> set data. rusher_player_id p \<noteq> None}
     \<union> role_key passer_player_name passer_player_id ` {p \<in> set data. passer_player_id p \<noteq> None}
     \<union> role_key receiver_player_name receiver_player_id ` {p \<in> set data. receiver_player_id p \<noteq> None}"
proof -
  have "pkey ` set (get_players data) = set (map pkey (get_players data))"
    by simp
  also have "\<dots> = pkey ` set (get_rushers data @ get_passers data @ get_receivers data)"
    by (simp only: map_pkey_get_players set_group_keys)
  also have "\<dots> = pkey ` set (get_rushers data) \<union> pkey ` set (get_passers data)
      \<union> pkey ` set (get_receivers data)"
    by (simp add: image_Un Un_assoc)
  finally show ?thesis
    by (simp only: get_rushers_def get_passers_def get_receivers_def set_pkey_role_table)
qed

lemma get_players_plays_count:
  assumes "r \<in> set (get_players data)"
  shows "participation.plays r =
     count_col (map play_id (filter (\<lambda>p. rusher_player_id p \<noteq> None
        \<and> role_key rusher_player_name rusher_player_id p = pkey r) data))
   + count_col (map play_id (filter (\<lambda>p. passer_player_id p \<noteq> None
        \<and> role_key passer_player_name passer_player_id p = pkey r) data))
   + count_col (map play_id (filter (\<lambda>p. receiver_player_id p \<noteq> None
        \<and> role_key receiver_player_name receiver_player_id p = pkey r) data))"
proof -
  from assms obtain k where
    r: "r = participation_row k
          (sum_list (map participation.plays (group_rows pkey k (get_rushers data @ get_passers data @ get_receivers data))))"
    by (auto simp: get_players_alt)
  then have k: "pkey r = k"
    by (simp add: pkey_participation_row)
  have "participation.plays r =
      sum_list (map participation.plays (group_rows pkey k (get_rushers data @ get_passers data @ get_receivers data)))"
    by (simp add: r plays_participation_row)
  also have "\<dots> = sum_list (map participation.plays (group_rows pkey k (get_rushers data)))
      + sum_list (map participation.plays (group_rows pkey k (get_passers data)))
      + sum_list (map participation.plays (group_rows pkey k (get_receivers data)))"
    by (simp add: group_rows_append)
  finally show ?thesis
    by (simp only: k get_rushers_def get_passers_def get_receivers_def role_table_group_plays)
qed

lemma group_max_eq:
  "group_max vs = Some m \<longleftrightarrow> Some m \<in> set vs \<and> (\<forall>s. Some s \<in> set vs \<longrightarrow> s \<le> m)"
proof -
  have set_mf: "set (List.map_filter id vs) = {s. Some s \<in> set vs}"
    by (induction vs) (auto simp: map_filter_simps split: option.splits)
  show ?thesis
  proof (cases "List.map_filter id vs")
    case Nil
    with set_mf show ?thesis
      by (auto simp: group_max_def)
  next
    case (Cons x xs)
    then have "group_max vs = Some (Max (set (x # xs)))"
      by (simp only: group_max_def list.case Max.set_eq_fold)
    moreover have "set (x # xs) = {s. Some s \<in> set vs}"
      using set_mf Cons by simp
    moreover have "Max (set (x # xs)) = m \<longleftrightarrow> m \<in> set (x # xs) \<and> (\<forall>s\<in>set (x # xs). s \<le> m)"
      by (rule Max_eq_iff) simp_all
    ultimately show ?thesis
      by auto
  qed
qed

lemma keeps_row_iff:
  assumes "e \<in> set df"
  shows "cell_eq (transform_max df e) (season e) \<longleftrightarrow>
     (\<exists>g s. gsis_id e = Some g \<and> season e = Some s
        \<and> (\<forall>e'\<in>set df. gsis_id e' = Some g \<longrightarrow> (\<forall>s'. season e' = Some s' \<longrightarrow> s' \<le> s)))"
proof (cases "gsis_id e")
  case None
  then show ?thesis
    by (simp add: transform_max_def cell_eq_def)
next
  case (Some g)
  show ?thesis
  proof (cases "season e")
    case None
    then show ?thesis
      by (simp add: cell_eq_def split: option.splits)
  next
    case (Some s)
    have "cell_eq (transform_max df e) (season e) \<longleftrightarrow>
        group_max (map season (group_rows gsis_id (Some g) df)) = Some s"
      using \<open>gsis_id e = Some g\<close> Some
      by (auto simp: transform_max_def cell_eq_def split: option.splits)
    also have "\<dots> \<longleftrightarrow> (\<forall>e'\<in>set df. gsis_id e' = Some g \<longrightarrow> (\<forall>s'. season e' = Some s' \<longrightarrow> s' \<le> s))"
    proof -
      have "Some s \<in> set (map season (group_rows gsis_id (Some g) df))"
        using assms \<open>gsis_id e = Some g\<close> Some
        by (auto simp: set_group_rows image_iff intro!: bexI [of _ e])
      moreover have "(\<forall>s'. Some s' \<in> set (map season (group_rows gsis_id (Some g) df)) \<longrightarrow> s' \<le> s)
          \<longleftrightarrow> (\<forall>e'\<in>set df. gsis_id e' = Some g \<longrightarrow> (\<forall>s'. season e' = Some s' \<longrightarrow> s' \<le> s))"
        by (auto simp: set_group_rows image_iff) metis
      ultimately show ?thesis
        by (simp only: group_max_eq simp_thms)
    qed
    finally show ?thesis
      using \<open>gsis_id e = Some g\<close> Some by simp
  qed
qed

lemma max_season_rows_filter:
  "max_season_rows r1 r2 =
     filter (\<lambda>e. \<exists>g s. gsis_id e = Some g \<and> season e = Some s
        \<and> (\<forall>e'\<in>set (r1 @ r2). gsis_id e' = Some g \<longrightarrow> (\<forall>s'. season e' = Some s' \<longrightarrow> s' \<le> s)))
      (r1 @ r2)"
  unfolding max_season_rows_def Let_def
  by (rule filter_cong [OF refl]) (rule keeps_row_iff)

lemma joined_row_inject: "joined_row p s = joined_row p' s' \<Longrightarrow> p = p'"
  by (cases p, cases p') (simp add: joined_row_def)

lemma attributed_row_inject: "attributed_row j pos = attributed_row j' pos' \<Longrightarrow> j = j' \<and> pos = pos'"
  by (cases j, cases j') (simp add: attributed_row_def)

lemma in_joined_data:
  "x \<in> set (joined_data players stats) \<longleftrightarrow>
     (\<exists>p\<in>set players. \<exists>s\<in>set stats. stat_matches p s \<and> x = joined_row p s)"
  by (auto simp: joined_data_def)

lemma in_tri_data:
  "x \<in> set (tri_data js roster) \<longleftrightarrow>
     (\<exists>j\<in>set js. (if \<exists>e\<in>set roster. roster_matches j e
        then \<exists>e\<in>set roster. roster_matches j e \<and> x = attributed_row j (roster_entry.position e)
        else x = attributed_row j None))"
proof -
  have one: "x \<in> set (case filter (roster_matches j) roster of
                 [] \<Rightarrow> [attributed_row j None]
               | es \<Rightarrow> map (\<lambda>e. attributed_row j (roster_entry.position e)) es) \<longleftrightarrow>
      (if \<exists>e\<in>set roster. roster_matches j e
        then \<exists>e\<in>set roster. roster_matches j e \<and> x = attributed_row j (roster_entry.position e)
        else x = attributed_row j None)" for j
  proof (cases "filter (roster_matches j) roster")
    case Nil
    then have "\<not> (\<exists>e\<in>set roster. roster_matches j e)"
      by (simp add: filter_empty_conv)
    with Nil show ?thesis by simp
  next
    case (Cons e es)
    then have "e \<in> set (filter (roster_matches j) roster)" by simp
    then have ex: "\<exists>e\<in>set roster. roster_matches j e" by auto
    have "set (e # es) = {e \<in> set roster. roster_matches j e}"
      using Cons [symmetric] by simp
    with Cons ex show ?thesis
      by (simp only: list.case if_True set_map) blast
  qed
  show ?thesis
    unfolding tri_data_def set_concat set_map
    by (simp only: UN_iff image_iff bex_simps one)
qed

lemma role_table_has_key:
  assumes "p \<in> set df" and "id_col p \<noteq> None"
  shows "role_key name_col id_col p \<in> pkey ` set (role_table name_col id_col df)"
  using assms by (simp only: set_pkey_role_table) blast

lemma count_col_pos:
  assumes "p \<in> set ps" and "play_id p \<noteq> None"
  shows "0 < count_col (map play_id ps)"
proof -
  from assms have "play_id p \<in> set (filter (\<lambda>v. v \<noteq> None) (map play_id ps))"
    by simp
  then have "0 < length (filter (\<lambda>v. v \<noteq> None) (map play_id ps))"
    by (rule length_pos_if_in_set)
  then show ?thesis
    by (simp only: count_col_def)
qed

lemma get_players_has_row:
  assumes p: "p \<in> set data"
    and k: "k = role_key rusher_player_name rusher_player_id p \<and> rusher_player_id p \<noteq> None
         \<or> k = role_key passer_player_name passer_player_id p \<and> passer_player_id p \<noteq> None
         \<or> k = role_key receiver_player_name receiver_player_id p \<and> receiver_player_id p \<noteq> None"
  shows "\<exists>r\<in>set (get_players data). pkey r = k \<and> (play_id p \<noteq> None \<longrightarrow> 0 < participation.plays r)"
proof -
  from p k have "k \<in> pkey ` set (get_players data)"
    by (simp only: set_pkey_get_players) blast
  then obtain r where r: "r \<in> set (get_players data)" and kr: "pkey r = k"
    by auto
  have "0 < participation.plays r" if pid: "play_id p \<noteq> None"
  proof -
    let ?P = "\<lambda>name_col id_col q. id_col q \<noteq> None \<and> role_key name_col id_col q = pkey r"
    from k kr consider
        "?P rusher_player_name rusher_player_id p"
      | "?P passer_player_name passer_player_id p"
      | "?P receiver_player_name receiver_player_id p"
      by auto
    then show ?thesis
    proof cases
      case 1
      with p have "p \<in> set (filter (?P rusher_player_name rusher_player_id) data)" by simp
      from count_col_pos [OF this pid] show ?thesis
        by (simp add: get_players_plays_count [OF r])
    next
      case 2
      with p have "p \<in> set (filter (?P passer_player_name passer_player_id) data)" by simp
      from count_col_pos [OF this pid] show ?thesis
        by (simp add: get_players_plays_count [OF r])
    next
      case 3
      with p have "p \<in> set (filter (?P receiver_player_name receiver_player_id) data)" by simp
      from count_col_pos [OF this pid] show ?thesis
        by (simp add: get_players_plays_count [OF r])
    qed
  qed
  with r kr show ?thesis by blast
qed

lemma get_two_year_roster_data_Inl:
  "get_roster_data year w = Inl e \<or> get_roster_data (year - 1) w = Inl e
     \<Longrightarrow> \<exists>e'. get_two_year_roster_data year w = Inl e'"
  by (auto simp: get_two_year_roster_data_def split: sum.splits)

lemma get_fpa_by_position_computed:
  assumes "fpa_cache w year = None" and "get_fpa_by_position fsum year w = (Inr table, w')"
  shows "\<exists>data player_stats_data two_year_roster_data.
      get_pbp_data year w = Inr data
      \<and> get_player_stats_data year w = Inr player_stats_data
      \<and> get_two_year_roster_data year w = Inr two_year_roster_data
      \<and> table = summed_by_position fsum
                  (tri_data (joined_data (get_players data) player_stats_data)
                     two_year_roster_data)"
  using assms
  by (auto simp: get_fpa_by_position_def fpa_by_position_def Let_def split: sum.splits if_splits)

lemma position_attributed_row: "attributed.position (attributed_row j pos) = pos"
  by (simp add: attributed_row_def)

lemma tri_data_positions:
  assumes "\<forall>e\<in>set roster. roster_entry.position e \<noteq> Some lab"
  shows "\<forall>r\<in>set (tri_data js roster). attributed.position r \<noteq> Some lab"
proof
  fix r assume "r \<in> set (tri_data js roster)"
  then obtain j where
    "if \<exists>e\<in>set roster. roster_matches j e
     then \<exists>e\<in>set roster. roster_matches j e \<and> r = attributed_row j (roster_entry.position e)
     else r = attributed_row j None"
    unfolding in_tri_data by blast
  with assms show "attributed.position r \<noteq> Some lab"
    by (auto simp: position_attributed_row split: if_splits)
qed

section \<open>Properties\<close>

text \<open>
  Claim C1: every attributed row with position FB is reported under RB in the final
  table, never under FB and never dropped. The code does not do this. A player who rushed
  once and scored 9 points (10 PPR) gives the row (week 3, PHI, DAL, RB, 9, 10) when the
  most recent roster lists the player as RB, and an empty table when it lists the player
  as FB: line 178 leaves the position column as it was, and the filter of line 179 drops
  the FB row. Every sum at this input is the sum of one cell, which no rounding changes.
\<close>

theorem fullback_points_dropped:
  "fst (get_fpa_by_position sum_list 2021 (example_world ''FB'')) = Inr []
   \<and> fst (get_fpa_by_position sum_list 2021 (example_world ''RB'')) =
       Inr [\<lparr>fpa_row.week = Some 3, fpa_row.defteam = Some ''PHI'',
             fpa_row.posteam = Some ''DAL'', fpa_row.position = Some ''RB'',
             fpa_row.fantasy_points = 9, fpa_row.fantasy_points_ppr = 10\<rparr>]"
  by code_simp

text \<open>
  Claim C2: when \<^verbatim>\<open>get_fpa_by_position\<close> recomputes the table, the table has a
  \<^verbatim>\<open>non_skill\<close> row for a (week, offense, defense) group exactly when the attributed rows
  of that group whose position is outside QB, RB, FB, TE, WR (a null position included)
  have a non-null standard \<^verbatim>\<open>fantasy_points\<close> cell and the float64 sum of those cells, taken
  in the order of the rows, is greater than 6. The sum is the one pandas computes, whatever
  its rounding; the PPR column has no part in it. The label \<^verbatim>\<open>non_skill\<close> is taken not to
  be a position of the roster.
\<close>

theorem non_skill_row_iff_sum_exceeds_6:
  assumes "fpa_cache w year = None"
    and "get_pbp_data year w = Inr data"
    and "get_player_stats_data year w = Inr player_stats_data"
    and "get_two_year_roster_data year w = Inr two_year_roster_data"
    and "\<forall>e\<in>set two_year_roster_data. roster_entry.position e \<noteq> Some ''non_skill''"
    and "fst (get_fpa_by_position fsum year w) = Inr table"
  shows "(\<exists>row\<in>set table. fpa_row.position row = Some ''non_skill''
            \<and> fpa_row.week row = wk \<and> fpa_row.posteam row = off \<and> fpa_row.defteam row = def)
         \<longleftrightarrow>
         List.map_filter attributed.fantasy_points
           (filter (\<lambda>r. attributed.position r \<notin>
                           {Some ''QB'', Some ''RB'', Some ''FB'', Some ''TE'', Some ''WR''}
                         \<and> attributed.week r = wk \<and> attributed.posteam r = off
                         \<and> attributed.defteam r = def)
              (tri_data (joined_data (get_players data) player_stats_data)
                 two_year_roster_data)) \<noteq> []
         \<and> 6 < fsum (List.map_filter attributed.fantasy_points
           (filter (\<lambda>r. attributed.position r \<notin>
                           {Some ''QB'', Some ''RB'', Some ''FB'', Some ''TE'', Some ''WR''}
                         \<and> attributed.week r = wk \<and> attributed.posteam r = off
                         \<and> attributed.defteam r = def)
              (tri_data (joined_data (get_players data) player_stats_data)
                 two_year_roster_data)))"
proof -
  let ?tri = "tri_data (joined_data (get_players data) player_stats_data) two_year_roster_data"
  from assms(6)
  have "get_fpa_by_position fsum year w = (Inr table, snd (get_fpa_by_position fsum year w))"
    by (simp only: prod_eq_iff fst_conv snd_conv simp_thms)
  from get_fpa_by_position_computed [OF assms(1) this] assms(2-4)
  have "table = summed_by_position fsum ?tri"
    by simp
  moreover from assms(5) have "\<forall>r\<in>set ?tri. attributed.position r \<noteq> Some ''non_skill''"
    by (rule tri_data_positions)
  ultimately show ?thesis
    by (simp only: non_skill_row_iff_group_sum nansum_exceeds_6)
qed

theorem non_skill_row_iff_sum_exceeds_6_witness:
  "fpa_cache (two_carrier_world 3) 2021 = None
   \<and> get_pbp_data 2021 (two_carrier_world 3) = Inr two_carrier_plays
   \<and> get_player_stats_data 2021 (two_carrier_world 3) = Inr (two_carrier_stats 3)
   \<and> get_two_year_roster_data 2021 (two_carrier_world 3) = Inr two_carrier_roster
   \<and> map roster_entry.position two_carrier_roster = [Some ''K'', Some ''RB'']
   \<and> map attributed.position (two_carrier_tri 3) = [Some ''K'', None, Some ''RB'']
   \<and> fst (get_fpa_by_position sum_list 2021 (two_carrier_world 3)) =
        Inr (two_carrier_table (Some 7))
   \<and> List.map_filter attributed.fantasy_points
        (filter (\<lambda>r. attributed.position r \<notin>
                        {Some ''QB'', Some ''RB'', Some ''FB'', Some ''TE'', Some ''WR''}
                      \<and> attributed.week r = Some 3 \<and> attributed.posteam r = Some ''DAL''
                      \<and> attributed.defteam r = Some ''PHI'') (two_carrier_tri 3)) = [4, 3]
   \<and> 6 < sum_list (List.map_filter attributed.fantasy_points
        (filter (\<lambda>r. attributed.position r \<notin>
                        {Some ''QB'', Some ''RB'', Some ''FB'', Some ''TE'', Some ''WR''}
                      \<and> attributed.week r = Some 3 \<and> attributed.posteam r = Some ''DAL''
                      \<and> attributed.defteam r = Some ''PHI'') (two_carrier_tri 3)))
   \<and> fpa_cache (two_carrier_world 2) 2021 = None
   \<and> get_pbp_data 2021 (two_carrier_world 2) = Inr two_carrier_plays
   \<and> get_player_stats_data 2021 (two_carrier_world 2) = Inr (two_carrier_stats 2)
   \<and> get_two_year_roster_data 2021 (two_carrier_world 2) = Inr two_carrier_roster
   \<and> fst (get_fpa_by_position sum_list 2021 (two_carrier_world 2)) =
        Inr (two_carrier_table None)
   \<and> List.map_filter attributed.fantasy_points
        (filter (\<lambda>r. attributed.position r \<notin>
                        {Some ''QB'', Some ''RB'', Some ''FB'', Some ''TE'', Some ''WR''}
                      \<and> attributed.week r = Some 3 \<and> attributed.posteam r = Some ''DAL''
                      \<and> attributed.defteam r = Some ''PHI'') (two_carrier_tri 2)) = [4, 2]
   \<and> \<not> 6 < sum_list (List.map_filter attributed.fantasy_points
        (filter (\<lambda>r. attributed.position r \<notin>
                        {Some ''QB'', Some ''RB'', Some ''FB'', Some ''TE'', Some ''WR''}
                      \<and> attributed.week r = Some 3 \<and> attributed.posteam r = Some ''DAL''
                      \<and> attributed.defteam r = Some ''PHI'') (two_carrier_tri 2)))"
proof -
  let ?P = "\<lambda>r. attributed.position r \<notin>
                  {Some ''QB'', Some ''RB'', Some ''FB'', Some ''TE'', Some ''WR''}
                \<and> attributed.week r = Some 3 \<and> attributed.posteam r = Some ''DAL''
                \<and> attributed.defteam r = Some ''PHI''"
  let ?Q = "\<lambda>row. fpa_row.position row = Some ''non_skill''
      \<and> fpa_row.week row = Some 3 \<and> fpa_row.posteam row = Some ''DAL''
      \<and> fpa_row.defteam row = Some ''PHI''"
  have h: "\<forall>e\<in>set two_carrier_roster. roster_entry.position e \<noteq> Some ''non_skill''"
    by code_simp
  have r: "map roster_entry.position two_carrier_roster = [Some ''K'', Some ''RB'']"
    by code_simp
  have t: "map attributed.position (two_carrier_tri 3) = [Some ''K'', None, Some ''RB'']"
    by code_simp
  have a1: "fpa_cache (two_carrier_world 3) 2021 = None"
    by (simp add: two_carrier_world_def)
  have a2: "get_pbp_data 2021 (two_carrier_world 3) = Inr two_carrier_plays"
    by code_simp
  have a3: "get_player_stats_data 2021 (two_carrier_world 3) = Inr (two_carrier_stats 3)"
    by code_simp
  have a4: "get_two_year_roster_data 2021 (two_carrier_world 3) = Inr two_carrier_roster"
    by code_simp
  have a6: "fst (get_fpa_by_position sum_list 2021 (two_carrier_world 3)) =
      Inr (two_carrier_table (Some 7))"
    by code_simp
  have c3: "List.map_filter attributed.fantasy_points (filter ?P (two_carrier_tri 3)) = [4, 3]"
    by code_simp
  have "\<exists>row\<in>set (two_carrier_table (Some 7)). ?Q row"
    by (simp add: two_carrier_table_def)
  with non_skill_row_iff_sum_exceeds_6 [OF a1 a2 a3 a4 h a6,
      of "Some 3" "Some ''DAL''" "Some ''PHI''", folded two_carrier_tri_def]
  have s3: "6 < sum_list (List.map_filter attributed.fantasy_points
      (filter ?P (two_carrier_tri 3)))"
    by blast
  have b1: "fpa_cache (two_carrier_world 2) 2021 = None"
    by (simp add: two_carrier_world_def)
  have b2: "get_pbp_data 2021 (two_carrier_world 2) = Inr two_carrier_plays"
    by code_simp
  have b3: "get_player_stats_data 2021 (two_carrier_world 2) = Inr (two_carrier_stats 2)"
    by code_simp
  have b4: "get_two_year_roster_data 2021 (two_carrier_world 2) = Inr two_carrier_roster"
    by code_simp
  have b6: "fst (get_fpa_by_position sum_list 2021 (two_carrier_world 2)) =
      Inr (two_carrier_table None)"
    by code_simp
  have c2: "List.map_filter attributed.fantasy_points (filter ?P (two_carrier_tri 2)) = [4, 2]"
    by code_simp
  then have n2: "List.map_filter attributed.fantasy_points (filter ?P (two_carrier_tri 2)) \<noteq> []"
    by simp
  have "\<not> (\<exists>row\<in>set (two_carrier_table None). ?Q row)"
    by (simp add: two_carrier_table_def)
  with non_skill_row_iff_sum_exceeds_6 [OF b1 b2 b3 b4 h b6,
      of "Some 3" "Some ''DAL''" "Some ''PHI''", folded two_carrier_tri_def] n2
  have s2: "\<not> 6 < sum_list (List.map_filter attributed.fantasy_points
      (filter ?P (two_carrier_tri 2)))"
    by blast
  from a1 a2 a3 a4 r t a6 c3 s3 b1 b2 b3 b4 b6 c2 s2 show ?thesis
    by (intro conjI)
qed

text \<open>
  Claim C3: when \<^verbatim>\<open>get_fpa_by_position\<close> recomputes the table, every row of it whose
  position is \<^verbatim>\<open>non_skill\<close> has \<^verbatim>\<open>fantasy_points_ppr\<close> 0: the synthetic rows carry
  no PPR value, and the sum of a group without values is 0. The label \<^verbatim>\<open>non_skill\<close>
  is taken not to be a position of the roster.
\<close>

theorem non_skill_rows_have_zero_ppr:
  assumes "fpa_cache w year = None"
    and "get_two_year_roster_data year w = Inr two_year_roster_data"
    and "\<forall>e\<in>set two_year_roster_data. roster_entry.position e \<noteq> Some ''non_skill''"
    and "fst (get_fpa_by_position fsum year w) = Inr table"
  shows "\<forall>row\<in>set table.
     fpa_row.position row = Some ''non_skill'' \<longrightarrow> fpa_row.fantasy_points_ppr row = 0"
proof -
  from assms(4)
  have "get_fpa_by_position fsum year w = (Inr table, snd (get_fpa_by_position fsum year w))"
    by (simp only: prod_eq_iff fst_conv snd_conv simp_thms)
  from get_fpa_by_position_computed [OF assms(1) this] assms(2)
  obtain js where "table = summed_by_position fsum (tri_data js two_year_roster_data)"
    by auto
  moreover from assms(3)
  have "\<forall>r\<in>set (tri_data js two_year_roster_data). attributed.position r \<noteq> Some ''non_skill''"
    by (rule tri_data_positions)
  ultimately show ?thesis
    using non_skill_ppr_zero by blast
qed

theorem non_skill_rows_have_zero_ppr_witness:
  "fpa_cache (example_world ''K'') 2021 = None
   \<and> get_two_year_roster_data 2021 (example_world ''K'') =
        Inr (example_roster ''K'' @ tl example_roster_prev)
   \<and> map roster_entry.position (example_roster ''K'' @ tl example_roster_prev) =
        [Some ''K'', Some ''WR'']
   \<and> fst (get_fpa_by_position sum_list 2021 (example_world ''K'')) = Inr [example_non_skill_row]
   \<and> fpa_row.position example_non_skill_row = Some ''non_skill''
   \<and> fpa_row.fantasy_points_ppr example_non_skill_row = 0"
proof -
  let ?roster = "example_roster ''K'' @ tl example_roster_prev"
  have a1: "fpa_cache (example_world ''K'') 2021 = None"
    by (simp add: example_world_def)
  have a2: "get_two_year_roster_data 2021 (example_world ''K'') = Inr ?roster"
    by code_simp
  have a3: "map roster_entry.position ?roster = [Some ''K'', Some ''WR'']"
    by code_simp
  have h: "\<forall>e\<in>set ?roster. roster_entry.position e \<noteq> Some ''non_skill''"
    by code_simp
  have a4: "fst (get_fpa_by_position sum_list 2021 (example_world ''K'')) =
      Inr [example_non_skill_row]"
    by code_simp
  have m: "example_non_skill_row \<in> set [example_non_skill_row]"
    by simp
  have n: "fpa_row.position example_non_skill_row = Some ''non_skill''"
    by (simp add: example_non_skill_row_def)
  from non_skill_rows_have_zero_ppr [OF a1 a2 h a4, THEN bspec, OF m, THEN mp, OF n]
  have z: "fpa_row.fantasy_points_ppr example_non_skill_row = 0" .
  from a1 a2 a3 a4 n z show ?thesis
    by (intro conjI)
qed

text \<open>
  Claim C4: every row of the table that \<^verbatim>\<open>get_fpa_by_position\<close> returns has its
  position among QB, RB, WR, TE and \<^verbatim>\<open>non_skill\<close>. It holds for every recomputed table,
  and for a table read from the cache as soon as the artifact has the property, as
  every artifact that the function itself wrote has.
\<close>

theorem output_positions_in_fixed_set:
  assumes "\<forall>cached. fpa_cache w year = Some cached \<longrightarrow>
      (\<forall>row\<in>set cached. fpa_row.position row \<in>
         {Some ''QB'', Some ''RB'', Some ''WR'', Some ''TE'', Some ''non_skill''})"
    and "get_fpa_by_position fsum year w = (Inr table, w')"
  shows "\<forall>row\<in>set table. fpa_row.position row \<in>
      {Some ''QB'', Some ''RB'', Some ''WR'', Some ''TE'', Some ''non_skill''}"
proof (cases "fpa_cache w year")
  case (Some cached)
  with assms(2) have "table = cached"
    by (simp add: get_fpa_by_position_def)
  with assms(1) Some show ?thesis by simp
next
  case None
  from get_fpa_by_position_computed [OF None assms(2)]
  obtain tri where "table = summed_by_position fsum tri" by blast
  then show ?thesis
    using summed_by_position_positions [of _ fsum tri] by (auto simp: isin_iff)
qed

theorem output_positions_in_fixed_set_witness:
  "fpa_cache (example_world ''K'') 2021 = None
   \<and> fst (get_fpa_by_position sum_list 2021 (example_world ''K'')) = Inr [example_non_skill_row]
   \<and> fpa_row.position example_non_skill_row \<in>
         {Some ''QB'', Some ''RB'', Some ''WR'', Some ''TE'', Some ''non_skill''}"
proof -
  have c: "fpa_cache (example_world ''K'') 2021 = None"
    by (simp add: example_world_def)
  then have h1: "\<forall>cached. fpa_cache (example_world ''K'') 2021 = Some cached \<longrightarrow>
      (\<forall>row\<in>set cached. fpa_row.position row \<in>
         {Some ''QB'', Some ''RB'', Some ''WR'', Some ''TE'', Some ''non_skill''})"
    by simp
  have e: "fst (get_fpa_by_position sum_list 2021 (example_world ''K'')) =
      Inr [example_non_skill_row]"
    by code_simp
  then have h2: "get_fpa_by_position sum_list 2021 (example_world ''K'') =
      (Inr [example_non_skill_row], snd (get_fpa_by_position sum_list 2021 (example_world ''K'')))"
    by (simp only: prod_eq_iff fst_conv snd_conv simp_thms)
  have m: "example_non_skill_row \<in> set [example_non_skill_row]"
    by simp
  from output_positions_in_fixed_set [OF h1 h2, THEN bspec, OF m]
  have r: "fpa_row.position example_non_skill_row \<in>
         {Some ''QB'', Some ''RB'', Some ''WR'', Some ''TE'', Some ''non_skill''}" .
  from c e r show ?thesis
    by (intro conjI)
qed

text \<open>
  Claim C5: \<^verbatim>\<open>get_players\<close> has exactly one row for every (player name, player id, week,
  offense, defense) key that a play gives in a role with a non-null id, and the
  \<^verbatim>\<open>plays\<close> of a row is the number of plays with that key in the rusher role, plus
  those in the passer role, plus those in the receiver role. The count is a count of
  \<^verbatim>\<open>play_id\<close> cells, so every play is taken to have its \<^verbatim>\<open>play_id\<close>.
\<close>

theorem get_players_one_row_per_key_with_play_count:
  assumes "\<forall>p\<in>set data. play_id p \<noteq> None"
  shows "distinct (map pkey (get_players data))
    \<and> pkey ` set (get_players data) =
        role_key rusher_player_name rusher_player_id ` {p \<in> set data. rusher_player_id p \<noteq> None}
        \<union> role_key passer_player_name passer_player_id ` {p \<in> set data. passer_player_id p \<noteq> None}
        \<union> role_key receiver_player_name receiver_player_id ` {p \<in> set data. receiver_player_id p \<noteq> None}
    \<and> (\<forall>r\<in>set (get_players data). participation.plays r =
          length (filter (\<lambda>p. rusher_player_id p \<noteq> None
            \<and> role_key rusher_player_name rusher_player_id p = pkey r) data)
        + length (filter (\<lambda>p. passer_player_id p \<noteq> None
            \<and> role_key passer_player_name passer_player_id p = pkey r) data)
        + length (filter (\<lambda>p. receiver_player_id p \<noteq> None
            \<and> role_key receiver_player_name receiver_player_id p = pkey r) data))"
proof (intro conjI ballI)
  show "distinct (map pkey (get_players data))"
    by (simp only: map_pkey_get_players distinct_group_keys)
next
  show "pkey ` set (get_players data) =
        role_key rusher_player_name rusher_player_id ` {p \<in> set data. rusher_player_id p \<noteq> None}
        \<union> role_key passer_player_name passer_player_id ` {p \<in> set data. passer_player_id p \<noteq> None}
        \<union> role_key receiver_player_name receiver_player_id ` {p \<in> set data. receiver_player_id p \<noteq> None}"
    by (rule set_pkey_get_players)
next
  fix r assume "r \<in> set (get_players data)"
  moreover have "count_col (map play_id (filter P data)) = length (filter P data)" for P
    using assms by (intro count_col_all_present) simp
  ultimately show "participation.plays r =
          length (filter (\<lambda>p. rusher_player_id p \<noteq> None
            \<and> role_key rusher_player_name rusher_player_id p = pkey r) data)
        + length (filter (\<lambda>p. passer_player_id p \<noteq> None
            \<and> role_key passer_player_name passer_player_id p = pkey r) data)
        + length (filter (\<lambda>p. receiver_player_id p \<noteq> None
            \<and> role_key receiver_player_name receiver_player_id p = pkey r) data)"
    by (simp add: get_players_plays_count)
qed

theorem get_players_one_row_per_key_with_play_count_witness:
  "map play_id example_game = map Some [1..<9]
   \<and> get_players example_game =
       [example_participation 8,
        \<lparr>participation.player = Some ''B.Passer'', participation.player_id = Some ''00-3'',
         participation.week = Some 3, participation.posteam = Some ''DAL'',
         participation.defteam = Some ''PHI'', participation.plays = 3\<rparr>]
   \<and> distinct (map pkey (get_players example_game))
   \<and> participation.plays (example_participation 8) =
       length (filter (\<lambda>p. rusher_player_id p \<noteq> None
            \<and> role_key rusher_player_name rusher_player_id p = pkey (example_participation 8))
          example_game)
     + length (filter (\<lambda>p. passer_player_id p \<noteq> None
            \<and> role_key passer_player_name passer_player_id p = pkey (example_participation 8))
          example_game)
     + length (filter (\<lambda>p. receiver_player_id p \<noteq> None
            \<and> role_key receiver_player_name receiver_player_id p = pkey (example_participation 8))
          example_game)
   \<and> length (filter (\<lambda>p. rusher_player_id p \<noteq> None
            \<and> role_key rusher_player_name rusher_player_id p = pkey (example_participation 8))
          example_game) = 5
   \<and> length (filter (\<lambda>p. receiver_player_id p \<noteq> None
            \<and> role_key receiver_player_name receiver_player_id p = pkey (example_participation 8))
          example_game) = 3"
proof -
  have ids: "map play_id example_game = map Some [1..<9]"
    by code_simp
  have h: "\<forall>p\<in>set example_game. play_id p \<noteq> None"
    by code_simp
  have e: "get_players example_game =
       [example_participation 8,
        \<lparr>participation.player = Some ''B.Passer'', participation.player_id = Some ''00-3'',
         participation.week = Some 3, participation.posteam = Some ''DAL'',
         participation.defteam = Some ''PHI'', participation.plays = 3\<rparr>]"
    by code_simp
  have m: "example_participation 8 \<in> set (get_players example_game)"
    by (simp only: e list.set insertI1)
  have l5: "length (filter (\<lambda>p. rusher_player_id p \<noteq> None
            \<and> role_key rusher_player_name rusher_player_id p = pkey (example_participation 8))
          example_game) = 5"
    by code_simp
  have l3: "length (filter (\<lambda>p. receiver_player_id p \<noteq> None
            \<and> role_key receiver_player_name receiver_player_id p = pkey (example_participation 8))
          example_game) = 3"
    by code_simp
  note t = get_players_one_row_per_key_with_play_count [OF h]
  note d = t [THEN conjunct1]
  note a = t [THEN conjunct2, THEN conjunct2]
  have "\<forall>r\<in>set (get_players example_game). participation.plays r =
          length (filter (\<lambda>p. rusher_player_id p \<noteq> None
            \<and> role_key rusher_player_name rusher_player_id p = pkey r) example_game)
        + length (filter (\<lambda>p. passer_player_id p \<noteq> None
            \<and> role_key passer_player_name passer_player_id p = pkey r) example_game)
        + length (filter (\<lambda>p. receiver_player_id p \<noteq> None
            \<and> role_key receiver_player_name receiver_player_id p = pkey r) example_game)"
    by (rule a)
  from this m have c: "participation.plays (example_participation 8) =
       length (filter (\<lambda>p. rusher_player_id p \<noteq> None
            \<and> role_key rusher_player_name rusher_player_id p = pkey (example_participation 8))
          example_game)
     + length (filter (\<lambda>p. passer_player_id p \<noteq> None
            \<and> role_key passer_player_name passer_player_id p = pkey (example_participation 8))
          example_game)
     + length (filter (\<lambda>p. receiver_player_id p \<noteq> None
            \<and> role_key receiver_player_name receiver_player_id p = pkey (example_participation 8))
          example_game)"
    by (rule bspec)
  from ids e d c l5 l3 show ?thesis
    by (intro conjI)
qed

text \<open>
  Claim C6: when both rosters are fetched, \<^verbatim>\<open>get_two_year_roster_data\<close> returns, in
  order and with repetitions, exactly the entries of the concatenated rosters that have a
  player id and whose season is the greatest season among the entries with that id.
\<close>

theorem two_year_roster_keeps_max_season_rows:
  assumes "get_roster_data year w = Inr roster_data"
    and "get_roster_data (year - 1) w = Inr roster_data_prev_year"
  shows "get_two_year_roster_data year w =
     Inr (filter (\<lambda>e. \<exists>g s. gsis_id e = Some g \<and> season e = Some s
            \<and> (\<forall>e'\<in>set (roster_data @ roster_data_prev_year).
                  gsis_id e' = Some g \<longrightarrow> (\<forall>s'. season e' = Some s' \<longrightarrow> s' \<le> s)))
          (roster_data @ roster_data_prev_year))"
  using assms by (simp add: get_two_year_roster_data_def max_season_rows_filter)

theorem two_year_roster_keeps_max_season_rows_witness:
  "get_roster_data 2021 (example_world ''FB'') = Inr (example_roster ''FB'')
   \<and> get_roster_data (2021 - 1) (example_world ''FB'') = Inr example_roster_prev
   \<and> get_two_year_roster_data 2021 (example_world ''FB'') =
       Inr [\<lparr>gsis_id = Some ''00-1'', season = Some 2021, roster_entry.position = Some ''FB''\<rparr>,
            \<lparr>gsis_id = Some ''00-2'', season = Some 2020, roster_entry.position = Some ''WR''\<rparr>]"
proof -
  have h1: "get_roster_data 2021 (example_world ''FB'') = Inr (example_roster ''FB'')"
    by (simp add: get_roster_data_def example_world_def)
  have h2: "get_roster_data (2021 - 1) (example_world ''FB'') = Inr example_roster_prev"
    by (simp add: get_roster_data_def example_world_def)
  have f: "filter (\<lambda>e. \<exists>g s. gsis_id e = Some g \<and> season e = Some s
            \<and> (\<forall>e'\<in>set (example_roster ''FB'' @ example_roster_prev).
                  gsis_id e' = Some g \<longrightarrow> (\<forall>s'. season e' = Some s' \<longrightarrow> s' \<le> s)))
          (example_roster ''FB'' @ example_roster_prev) =
       [\<lparr>gsis_id = Some ''00-1'', season = Some 2021, roster_entry.position = Some ''FB''\<rparr>,
        \<lparr>gsis_id = Some ''00-2'', season = Some 2020, roster_entry.position = Some ''WR''\<rparr>]"
    by (simp add: example_roster_def example_roster_prev_def)
  from two_year_roster_keeps_max_season_rows [OF h1 h2]
  have e: "get_two_year_roster_data 2021 (example_world ''FB'') =
       Inr [\<lparr>gsis_id = Some ''00-1'', season = Some 2021, roster_entry.position = Some ''FB''\<rparr>,
            \<lparr>gsis_id = Some ''00-2'', season = Some 2020, roster_entry.position = Some ''WR''\<rparr>]"
    by (simp only: f)
  from h1 h2 e show ?thesis
    by (intro conjI)
qed

text \<open>
  Claim C7: a participation row with no statistic on (player id, week) gives no row of
  \<^verbatim>\<open>joined_data\<close>; a joined row with no roster entry for its player id is in
  \<^verbatim>\<open>tri_data\<close> with a null position, and with no other position.
\<close>

theorem inner_join_drops_left_join_keeps:
  "(\<forall>p\<in>set players.
      (\<forall>s\<in>set stats. \<not> (player_stat.player_id s = participation.player_id p
                          \<and> player_stat.week s = participation.week p))
      \<longrightarrow> (\<forall>s. joined_row p s \<notin> set (joined_data players stats)))
   \<and> (\<forall>j\<in>set js.
      (\<forall>e\<in>set roster. gsis_id e \<noteq> joined.player_id j)
      \<longrightarrow> attributed_row j None \<in> set (tri_data js roster)
        \<and> (\<forall>pos. attributed_row j pos \<in> set (tri_data js roster) \<longrightarrow> pos = None))"
proof (intro conjI ballI impI allI)
  fix p s
  assume "p \<in> set players"
    and none: "\<forall>s\<in>set stats. \<not> (player_stat.player_id s = participation.player_id p
                          \<and> player_stat.week s = participation.week p)"
  show "joined_row p s \<notin> set (joined_data players stats)"
  proof
    assume "joined_row p s \<in> set (joined_data players stats)"
    then obtain p' s' where "s' \<in> set stats" "stat_matches p' s'" "joined_row p s = joined_row p' s'"
      by (auto simp: in_joined_data)
    with none show False
      by (auto simp: stat_matches_def dest: joined_row_inject)
  qed
next
  fix j
  assume j: "j \<in> set js" and none: "\<forall>e\<in>set roster. gsis_id e \<noteq> joined.player_id j"
  then have no: "\<not> (\<exists>e\<in>set roster. roster_matches j e)"
    by (simp add: roster_matches_def)
  with j show "attributed_row j None \<in> set (tri_data js roster)"
    unfolding in_tri_data by (intro bexI [of _ j]) simp_all
  fix pos
  assume "attributed_row j pos \<in> set (tri_data js roster)"
  then obtain j' where j': "j' \<in> set js" and
    c: "if \<exists>e\<in>set roster. roster_matches j' e
        then \<exists>e\<in>set roster. roster_matches j' e \<and> attributed_row j pos = attributed_row j' (roster_entry.position e)
        else attributed_row j pos = attributed_row j' None"
    unfolding in_tri_data by blast
  show "pos = None"
  proof (cases "\<exists>e\<in>set roster. roster_matches j' e")
    case True
    with c obtain e where "e \<in> set roster" "roster_matches j' e"
      "attributed_row j pos = attributed_row j' (roster_entry.position e)" by auto
    then have "j = j'" by (auto dest: attributed_row_inject)
    with no \<open>e \<in> set roster\<close> \<open>roster_matches j' e\<close> show ?thesis by blast
  next
    case False
    with c have "attributed_row j pos = attributed_row j' None" by simp
    then show ?thesis by (auto dest: attributed_row_inject)
  qed
qed

theorem inner_join_drops_left_join_keeps_witness:
  "participation.week (example_participation 1) = Some 3
   \<and> map player_stat.week [(example_stat 9)\<lparr>player_stat.week := Some 4\<rparr>] = [Some 4]
   \<and> joined_row (example_participation 1) (example_stat 9)
        \<notin> set (joined_data [example_participation 1]
                 [(example_stat 9)\<lparr>player_stat.week := Some 4\<rparr>])
   \<and> joined.player_id (joined_row (example_participation 1) (example_stat 9)) = Some ''00-1''
   \<and> map gsis_id (max_season_rows [] (tl example_roster_prev)) = [Some ''00-2'']
   \<and> attributed_row (joined_row (example_participation 1) (example_stat 9)) None
        \<in> set (tri_data [joined_row (example_participation 1) (example_stat 9)]
                 (max_season_rows [] (tl example_roster_prev)))"
proof -
  let ?p = "example_participation 1"
  let ?stats = "[(example_stat 9)\<lparr>player_stat.week := Some 4\<rparr>]"
  let ?j = "joined_row ?p (example_stat 9)"
  let ?roster = "max_season_rows [] (tl example_roster_prev)"
  have w3: "participation.week ?p = Some 3"
    by (simp add: example_participation_def)
  have w4: "map player_stat.week ?stats = [Some 4]"
    by simp
  have i1: "joined.player_id ?j = Some ''00-1''"
    by (simp add: joined_row_def example_participation_def)
  have i2: "map gsis_id ?roster = [Some ''00-2'']"
    by code_simp
  have p: "?p \<in> set [?p]"
    by simp
  have ns: "\<forall>s\<in>set ?stats.
        \<not> (player_stat.player_id s = participation.player_id ?p
           \<and> player_stat.week s = participation.week ?p)"
    by (simp add: example_stat_def example_participation_def)
  have j: "?j \<in> set [?j]"
    by simp
  have nr: "\<forall>e\<in>set ?roster. gsis_id e \<noteq> joined.player_id ?j"
    by code_simp
  note t = inner_join_drops_left_join_keeps [of "[?p]" ?stats "[?j]" ?roster]
  from t [THEN conjunct1, THEN bspec, OF p, THEN mp, OF ns, THEN spec, of "example_stat 9"]
  have a: "?j \<notin> set (joined_data [?p] ?stats)" .
  from t [THEN conjunct2, THEN bspec, OF j, THEN mp, OF nr, THEN conjunct1]
  have b: "attributed_row ?j None \<in> set (tri_data [?j] ?roster)" .
  from w3 w4 a i1 i2 b show ?thesis
    by (intro conjI)
qed

text \<open>
  Claim C8: a play whose offense or defense team is null and whose role id is not null
  has its group in the table of the role and in the merged table, with the null in the
  key, and is counted there.
\<close>

theorem null_team_groups_retained:
  assumes "p \<in> set data"
    and "play.posteam p = None \<or> play.defteam p = None"
  shows
    "(rusher_player_id p \<noteq> None \<longrightarrow>
        (\<exists>r\<in>set (get_rushers data).
           pkey r = (rusher_player_name p, rusher_player_id p, play.week p, play.posteam p, play.defteam p))
      \<and> (\<exists>r\<in>set (get_players data).
           pkey r = (rusher_player_name p, rusher_player_id p, play.week p, play.posteam p, play.defteam p)
           \<and> (play_id p \<noteq> None \<longrightarrow> 0 < participation.plays r)))
   \<and> (passer_player_id p \<noteq> None \<longrightarrow>
        (\<exists>r\<in>set (get_passers data).
           pkey r = (passer_player_name p, passer_player_id p, play.week p, play.posteam p, play.defteam p))
      \<and> (\<exists>r\<in>set (get_players data).
           pkey r = (passer_player_name p, passer_player_id p, play.week p, play.posteam p, play.defteam p)
           \<and> (play_id p \<noteq> None \<longrightarrow> 0 < participation.plays r)))
   \<and> (receiver_player_id p \<noteq> None \<longrightarrow>
        (\<exists>r\<in>set (get_receivers data).
           pkey r = (receiver_player_name p, receiver_player_id p, play.week p, play.posteam p, play.defteam p))
      \<and> (\<exists>r\<in>set (get_players data).
           pkey r = (receiver_player_name p, receiver_player_id p, play.week p, play.posteam p, play.defteam p)
           \<and> (play_id p \<noteq> None \<longrightarrow> 0 < participation.plays r)))"
proof -
  have role: "\<exists>r\<in>set (role_table name_col id_col data).
      pkey r = (name_col p, id_col p, play.week p, play.posteam p, play.defteam p)"
    if "id_col p \<noteq> None" for name_col id_col
    using role_table_has_key [of p data id_col name_col] assms(1) that
    by (auto simp: role_key_def)
  have merged: "\<exists>r\<in>set (get_players data). pkey r = k \<and> (play_id p \<noteq> None \<longrightarrow> 0 < participation.plays r)"
    if "k = role_key rusher_player_name rusher_player_id p \<and> rusher_player_id p \<noteq> None
         \<or> k = role_key passer_player_name passer_player_id p \<and> passer_player_id p \<noteq> None
         \<or> k = role_key receiver_player_name receiver_player_id p \<and> receiver_player_id p \<noteq> None" for k
    using get_players_has_row [OF assms(1) that] .
  show ?thesis
  proof (intro conjI impI)
    assume a: "rusher_player_id p \<noteq> None"
    from a role [of rusher_player_id rusher_player_name] show "\<exists>r\<in>set (get_rushers data).
        pkey r = (rusher_player_name p, rusher_player_id p, play.week p, play.posteam p, play.defteam p)"
      by (simp add: get_rushers_def)
    from a merged [of "role_key rusher_player_name rusher_player_id p"]
    show "\<exists>r\<in>set (get_players data).
        pkey r = (rusher_player_name p, rusher_player_id p, play.week p, play.posteam p, play.defteam p)
        \<and> (play_id p \<noteq> None \<longrightarrow> 0 < participation.plays r)"
      by (simp add: role_key_def)
  next
    assume a: "passer_player_id p \<noteq> None"
    from a role [of passer_player_id passer_player_name] show "\<exists>r\<in>set (get_passers data).
        pkey r = (passer_player_name p, passer_player_id p, play.week p, play.posteam p, play.defteam p)"
      by (simp add: get_passers_def)
    from a merged [of "role_key passer_player_name passer_player_id p"]
    show "\<exists>r\<in>set (get_players data).
        pkey r = (passer_player_name p, passer_player_id p, play.week p, play.posteam p, play.defteam p)
        \<and> (play_id p \<noteq> None \<longrightarrow> 0 < participation.plays r)"
      by (simp add: role_key_def)
  next
    assume a: "receiver_player_id p \<noteq> None"
    from a role [of receiver_player_id receiver_player_name] show "\<exists>r\<in>set (get_receivers data).
        pkey r = (receiver_player_name p, receiver_player_id p, play.week p, play.posteam p, play.defteam p)"
      by (simp add: get_receivers_def)
    from a merged [of "role_key receiver_player_name receiver_player_id p"]
    show "\<exists>r\<in>set (get_players data).
        pkey r = (receiver_player_name p, receiver_player_id p, play.week p, play.posteam p, play.defteam p)
        \<and> (play_id p \<noteq> None \<longrightarrow> 0 < participation.plays r)"
      by (simp add: role_key_def)
  qed
qed

theorem null_team_groups_retained_witness:
  "play.posteam (example_play\<lparr>play.posteam := None\<rparr>) = None
   \<and> rusher_player_id (example_play\<lparr>play.posteam := None\<rparr>) = Some ''00-1''
   \<and> play_id (example_play\<lparr>play.posteam := None\<rparr>) = Some 1
   \<and> (\<exists>r\<in>set (get_rushers [example_play\<lparr>play.posteam := None\<rparr>]).
          pkey r = (Some ''A.Player'', Some ''00-1'', Some 3, None, Some ''PHI''))
   \<and> (\<exists>r\<in>set (get_players [example_play\<lparr>play.posteam := None\<rparr>]).
          pkey r = (Some ''A.Player'', Some ''00-1'', Some 3, None, Some ''PHI'')
          \<and> 0 < participation.plays r)
   \<and> get_players [example_play\<lparr>play.posteam := None\<rparr>] =
        [(example_participation 1)\<lparr>participation.posteam := None\<rparr>]"
proof -
  let ?p = "example_play\<lparr>play.posteam := None\<rparr>"
  have m: "?p \<in> set [?p]"
    by simp
  have n0: "play.posteam ?p = None"
    by simp
  then have n: "play.posteam ?p = None \<or> play.defteam ?p = None"
    by (rule disjI1)
  have i0: "rusher_player_id ?p = Some ''00-1''"
    by (simp add: example_play_def)
  then have i: "rusher_player_id ?p \<noteq> None"
    by simp
  have pid0: "play_id ?p = Some 1"
    by (simp add: example_play_def)
  then have pid: "play_id ?p \<noteq> None"
    by simp
  have k: "(rusher_player_name ?p, rusher_player_id ?p, play.week ?p, play.posteam ?p, play.defteam ?p)
      = (Some ''A.Player'', Some ''00-1'', Some 3, None, Some ''PHI'')"
    by (simp add: example_play_def)
  have e: "get_players [?p] = [(example_participation 1)\<lparr>participation.posteam := None\<rparr>]"
    by code_simp
  note t = null_team_groups_retained [OF m n, THEN conjunct1, THEN mp, OF i]
  from t [THEN conjunct1] have a: "\<exists>r\<in>set (get_rushers [?p]).
      pkey r = (Some ''A.Player'', Some ''00-1'', Some 3, None, Some ''PHI'')"
    by (simp only: k)
  from t [THEN conjunct2] pid have b: "\<exists>r\<in>set (get_players [?p]).
      pkey r = (Some ''A.Player'', Some ''00-1'', Some 3, None, Some ''PHI'')
      \<and> 0 < participation.plays r"
    by (simp only: k simp_thms)
  from n0 i0 pid0 a b e show ?thesis
    by (intro conjI)
qed


end
